theory Spec2Isabelle
  imports Main
begin

section \<open>Trait tables (python/mypyli/picrust.py)\<close>

text \<open>
  A shallow embedding of the classes \<open>TraitTableEntry\<close> and \<open>TraitTableManager\<close>.

  Python strings are lists of characters; the characters of the model are the code points
  0 to 255. A dictionary is an association list with distinct keys in insertion order, as a
  Python dictionary keeps them. An exception is a value of type \<open>error\<close>. The functions
  that open the file take the list of lines that iterating over it in text mode yields:
  every line ends with a newline, the last one possibly excepted, and no line is empty;
  \<open>read_lines\<close> gives this list for the content of a file.

  The builtin \<open>float\<close> and the rendering \<open>str\<close> of a float are parameters of the model
  (\<open>parse_float\<close>, \<open>str_float\<close>): \<open>parse_float s = None\<close> stands for the
  \<open>ValueError\<close> of \<open>float(s)\<close>. The type \<open>'f\<close> is the type of floats.
\<close>

subsection \<open>Strings\<close>

definition TAB :: char where
  "TAB = CHR 0x09"

definition NL :: char where
  "NL = CHR 0x0A"

definition CR :: char where
  "CR = CHR 0x0D"

definition isspace :: "char \<Rightarrow> bool" where
  \<comment> \<open>\<open>str.isspace\<close> on the code points below 256\<close>
  "isspace c = (of_char c \<in> {9, 10, 11, 12, 13, 28, 29, 30, 31, 32, 133, 160 :: nat})"

definition rstrip :: "string \<Rightarrow> string" where
  \<comment> \<open>\<open>s.rstrip()\<close>\<close>
  "rstrip s = rev (dropWhile isspace (rev s))"

fun split :: "char \<Rightarrow> string \<Rightarrow> string list" where
  \<comment> \<open>\<open>s.split(sep)\<close> for a separator of one character; the result is never empty\<close>
  "split sep [] = [[]]"
| "split sep (c # cs) =
     (if c = sep then [] # split sep cs
      else (case split sep cs of w # ws \<Rightarrow> (c # w) # ws | [] \<Rightarrow> [[c]]))"

fun split1 :: "char \<Rightarrow> string \<Rightarrow> string list" where
  \<comment> \<open>\<open>s.split(sep, 1)\<close>: one or two parts\<close>
  "split1 sep [] = [[]]"
| "split1 sep (c # cs) =
     (if c = sep then [[], cs]
      else (case split1 sep cs of w # ws \<Rightarrow> (c # w) # ws | [] \<Rightarrow> [[c]]))"

fun join :: "char \<Rightarrow> string list \<Rightarrow> string" where
  \<comment> \<open>\<open>sep.join(parts)\<close>\<close>
  "join sep [] = []"
| "join sep [p] = p"
| "join sep (p # q # ps) = p @ sep # join sep (q # ps)"

definition replace_all :: "char \<Rightarrow> string \<Rightarrow> string" where
  \<comment> \<open>\<open>s.replace(c, "")\<close>\<close>
  "replace_all c s = filter (\<lambda>x. x \<noteq> c) s"

definition startswith :: "string \<Rightarrow> string \<Rightarrow> bool" where
  "startswith s p = (take (length p) s = p)"

subsection \<open>Reading a text file\<close>

text \<open>
  A file opened with \<open>open(path, 'r')\<close> is read with universal newlines: a carriage
  return, alone or followed by a line feed, reads as a line feed. Iterating over the file
  gives its lines, each with the line feed that ends it; the last line has none when the
  content does not end with one. What \<open>fh.write\<close> is given is the content as it is
  (the line feed is the line separator of the platform).
\<close>

fun universal_newlines :: "string \<Rightarrow> string" where
  "universal_newlines [] = []"
| "universal_newlines [c] = [if c = CR then NL else c]"
| "universal_newlines (c # d # cs) =
     (if c = CR then (if d = NL then NL # universal_newlines cs
                      else NL # universal_newlines (d # cs))
      else c # universal_newlines (d # cs))"

fun lines_of :: "string \<Rightarrow> string list" where
  "lines_of [] = []"
| "lines_of (c # cs) =
     (if c = NL then [NL] # lines_of cs
      else (case lines_of cs of [] \<Rightarrow> [[c]] | l # ls \<Rightarrow> (c # l) # ls))"

definition read_lines :: "string \<Rightarrow> string list" where
  \<comment> \<open>the lines of a file with the given content, as \<open>for line in IN\<close> yields them\<close>
  "read_lines content = lines_of (universal_newlines content)"

subsection \<open>Dictionaries\<close>

fun dict_set :: "'k \<Rightarrow> 'v \<Rightarrow> ('k \<times> 'v) list \<Rightarrow> ('k \<times> 'v) list" where
  \<comment> \<open>\<open>d[k] = v\<close>: a present key keeps its place, a new key goes last\<close>
  "dict_set k v [] = [(k, v)]"
| "dict_set k v (p # ps) = (if fst p = k then (k, v) # ps else p # dict_set k v ps)"

definition dict_keys :: "('k \<times> 'v) list \<Rightarrow> 'k list" where
  "dict_keys d = map fst d"

definition dict_get :: "('k \<times> 'v) list \<Rightarrow> 'k \<Rightarrow> 'v option" where
  \<comment> \<open>\<open>d[k]\<close>, with \<open>None\<close> for \<open>KeyError\<close>\<close>
  "dict_get d k = map_of d k"

subsection \<open>Errors and values\<close>

datatype error =
    DuplicateTraitError   \<comment> \<open>\<open>ValueError("... already has a trait called ...")\<close>\<close>
  | NoSharedTraitsError   \<comment> \<open>\<open>ValueError("No traits were shared between the entries.")\<close>\<close>
  | IndexError
  | UnboundLocalError
  | TypeError

datatype 'f trait_value = Numeric 'f | Text string

record 'f TraitTableEntry =
  name :: string
  traits :: "(string \<times> 'f trait_value) list"

definition new_entry :: "string \<Rightarrow> 'f TraitTableEntry" where
  \<comment> \<open>\<open>TraitTableEntry(name)\<close>\<close>
  "new_entry n = \<lparr>name = n, traits = []\<rparr>"

subsection \<open>TraitTableEntry.add_trait\<close>

definition to_number :: "(string \<Rightarrow> 'f option) \<Rightarrow> string \<Rightarrow> 'f trait_value" where
  \<comment> \<open>\<open>try: value = float(value) except ValueError: pass\<close>\<close>
  "to_number parse_float v = (case parse_float v of Some x \<Rightarrow> Numeric x | None \<Rightarrow> Text v)"

definition add_trait ::
  "(string \<Rightarrow> 'f option) \<Rightarrow> 'f TraitTableEntry \<Rightarrow> string \<Rightarrow> string
    \<Rightarrow> error option \<times> 'f TraitTableEntry" where
  \<comment> \<open>the exception raised, if any, and the entry after the call\<close>
  "add_trait parse_float self trait v =
     (if trait \<in> set (dict_keys (traits self)) then (Some DuplicateTraitError, self)
      else (None, self\<lparr>traits := dict_set trait (to_number parse_float v) (traits self)\<rparr>))"

subsection \<open>TraitTableEntry.correlation\<close>

text \<open>
  The loop of \<open>correlation\<close> fills \<open>pandas_dict\<close> with the pair of values of every
  listed trait that both entries have. What pandas computes from a non-empty dictionary is
  the parameter \<open>spearman\<close>.
\<close>

fun shared_traits ::
  "'f TraitTableEntry \<Rightarrow> 'f TraitTableEntry \<Rightarrow> string list
    \<Rightarrow> (string \<times> 'f trait_value \<times> 'f trait_value) list
    \<Rightarrow> (string \<times> 'f trait_value \<times> 'f trait_value) list" where
  "shared_traits self other [] pandas_dict = pandas_dict"
| "shared_traits self other (trait # rest) pandas_dict =
     (case dict_get (traits self) trait of
        None \<Rightarrow> shared_traits self other rest pandas_dict
      | Some st \<Rightarrow>
          (case dict_get (traits other) trait of
             None \<Rightarrow> shared_traits self other rest pandas_dict
           | Some ot \<Rightarrow> shared_traits self other rest (dict_set trait (st, ot) pandas_dict)))"

definition correlation ::
  "((string \<times> 'f trait_value \<times> 'f trait_value) list \<Rightarrow> 'c)
    \<Rightarrow> 'f TraitTableEntry \<Rightarrow> 'f TraitTableEntry \<Rightarrow> string list option \<Rightarrow> error + 'c" where
  "correlation spearman self other trs =
     (let candidates = (case trs of None \<Rightarrow> dict_keys (traits self) | Some l \<Rightarrow> l);
          pandas_dict = shared_traits self other candidates []
      in if pandas_dict = [] then Inl NoSharedTraitsError else Inr (spearman pandas_dict))"

subsection \<open>TraitTableManager\<close>

text \<open>
  The object keeps the path of the file and what \<open>__init__\<close> read from its first line.
  The field \<open>traits\<close> of the class is \<open>header_traits\<close> here, since the entry's
  dictionary has the name already. The lines of the file are an argument of every function
  that opens it.
\<close>

record TraitTableManager =
  trait_table_f :: string
  entry_header :: string
  header_traits :: "string list"

definition readline :: "string list \<Rightarrow> string" where
  \<comment> \<open>the first \<open>IN.readline()\<close> of an open file: the empty string at the end of the file\<close>
  "readline file = (case file of [] \<Rightarrow> [] | l # _ \<Rightarrow> l)"

definition TraitTableManager_init :: "string \<Rightarrow> string list \<Rightarrow> TraitTableManager" where
  "TraitTableManager_init path file =
     (case split TAB (rstrip (readline file)) of
        h # hs \<Rightarrow> \<lparr>trait_table_f = path, entry_header = replace_all (CHR ''#'') h,
                    header_traits = hs\<rparr>
      | [] \<Rightarrow> \<lparr>trait_table_f = path, entry_header = [], header_traits = []\<rparr>)"

subsection \<open>TraitTableManager.\_\_iter\_\_\<close>

text \<open>
  The generator yields entries and prints the lines it could not split, in this order; it
  ends at the end of the file or with an exception. Between two lines it keeps the local
  variables \<open>name\<close> and \<open>trait_values\<close>, which are unbound before the first line that
  splits in two.
\<close>

datatype 'f event = Yield "'f TraitTableEntry" | Print string

fun add_values ::
  "(string \<Rightarrow> 'f option) \<Rightarrow> string list \<Rightarrow> nat \<Rightarrow> string list \<Rightarrow> 'f TraitTableEntry
    \<Rightarrow> error + 'f TraitTableEntry" where
  \<comment> \<open>\<open>for index, val in enumerate(...): tte.add_trait(self.traits[index], val)\<close>, from \<open>index\<close> on\<close>
  "add_values parse_float hdr index [] tte = Inr tte"
| "add_values parse_float hdr index (val # vals) tte =
     (if length hdr \<le> index then Inl IndexError
      else (case add_trait parse_float tte (hdr ! index) val of
              (Some e, _) \<Rightarrow> Inl e
            | (None, tte') \<Rightarrow> add_values parse_float hdr (Suc index) vals tte'))"

definition iter_line ::
  "(string \<Rightarrow> 'f option) \<Rightarrow> string list \<Rightarrow> (string \<times> string) option \<Rightarrow> string
    \<Rightarrow> 'f event list \<times> (error + (string \<times> string) option)" where
  \<comment> \<open>the body of the loop on one line: its events, and the exception or the variables after it\<close>
  "iter_line parse_float hdr vars line =
     (if line = [] then ([], Inr vars)
      else
        let (printed, vars') =
              (case split1 TAB (rstrip line) of
                 [n, tv] \<Rightarrow> ([], Some (n, tv))
               | _ \<Rightarrow> ([Print line], vars))
        in (case vars' of
              None \<Rightarrow> (printed, Inl UnboundLocalError)
            | Some (n, tv) \<Rightarrow>
                (case add_values parse_float hdr 0 (split TAB tv) (new_entry n) of
                   Inl e \<Rightarrow> (printed, Inl e)
                 | Inr tte \<Rightarrow> (printed @ [Yield tte], Inr vars'))))"

fun iter_lines ::
  "(string \<Rightarrow> 'f option) \<Rightarrow> string list \<Rightarrow> (string \<times> string) option \<Rightarrow> string list
    \<Rightarrow> 'f event list \<times> error option" where
  "iter_lines parse_float hdr vars [] = ([], None)"
| "iter_lines parse_float hdr vars (line # rest) =
     (case iter_line parse_float hdr vars line of
        (evs, Inl e) \<Rightarrow> (evs, Some e)
      | (evs, Inr vars') \<Rightarrow>
          (case iter_lines parse_float hdr vars' rest of (evs', r) \<Rightarrow> (evs @ evs', r)))"

definition iter_table ::
  "(string \<Rightarrow> 'f option) \<Rightarrow> TraitTableManager \<Rightarrow> string list \<Rightarrow> 'f event list \<times> error option" where
  \<comment> \<open>one pass over the file, its header line skipped\<close>
  "iter_table parse_float self file = iter_lines parse_float (header_traits self) None (tl file)"

fun entries_of :: "'f event list \<Rightarrow> 'f TraitTableEntry list" where
  "entries_of [] = []"
| "entries_of (Yield e # evs) = e # entries_of evs"
| "entries_of (Print l # evs) = entries_of evs"

subsection \<open>TraitTableManager.get\_ordered\_traits\<close>

datatype token = IntTok nat | CharTok char

definition is_digit :: "char \<Rightarrow> bool" where
  "is_digit c = (48 \<le> (of_char c :: nat) \<and> (of_char c :: nat) \<le> 57)"

definition digit_val :: "char \<Rightarrow> nat" where
  "digit_val c = of_char c - 48"

definition convert :: "char \<Rightarrow> token" where
  \<comment> \<open>\<open>int(char)\<close> succeeds on the ten digits only\<close>
  "convert c = (if is_digit c then IntTok (digit_val c) else CharTok c)"

definition nat_sort :: "bool \<Rightarrow> string \<Rightarrow> token list" where
  "nat_sort metadata_last entry =
     map convert
       (if metadata_last \<and> startswith entry ''metadata'' then ''~~~'' @ ''metadata'' else entry)"

fun token_lt :: "token \<Rightarrow> token \<Rightarrow> error + bool" where
  \<comment> \<open>\<open>a < b\<close>: numbers by value, characters by code point, a number against a character fails\<close>
  "token_lt (IntTok a) (IntTok b) = Inr (a < b)"
| "token_lt (CharTok a) (CharTok b) = Inr ((of_char a :: nat) < of_char b)"
| "token_lt _ _ = Inl TypeError"

fun key_lt :: "token list \<Rightarrow> token list \<Rightarrow> error + bool" where
  \<comment> \<open>\<open><\<close> on lists: the first position where the items are not equal decides\<close>
  "key_lt [] [] = Inr False"
| "key_lt [] (y # ys) = Inr True"
| "key_lt (x # xs) [] = Inr False"
| "key_lt (x # xs) (y # ys) = (if x = y then key_lt xs ys else token_lt x y)"

text \<open>
  \<open>sorted(xs, key=f)\<close> is a stable sort that compares keys with \<open><\<close> only. The model is
  an insertion sort from the right: where no comparison fails it returns the one stable
  sorted arrangement, as Python does. Where a comparison fails, Python's sort may fail on
  another pair or make fewer comparisons.
\<close>

fun insert_by_key :: "('a \<Rightarrow> token list) \<Rightarrow> 'a \<Rightarrow> 'a list \<Rightarrow> error + 'a list" where
  "insert_by_key f x [] = Inr [x]"
| "insert_by_key f x (y # ys) =
     (case key_lt (f y) (f x) of
        Inl e \<Rightarrow> Inl e
      | Inr False \<Rightarrow> Inr (x # y # ys)
      | Inr True \<Rightarrow> (case insert_by_key f x ys of Inl e \<Rightarrow> Inl e | Inr zs \<Rightarrow> Inr (y # zs)))"

fun sorted_by_key :: "('a \<Rightarrow> token list) \<Rightarrow> 'a list \<Rightarrow> error + 'a list" where
  "sorted_by_key f [] = Inr []"
| "sorted_by_key f (x # xs) =
     (case sorted_by_key f xs of Inl e \<Rightarrow> Inl e | Inr ys \<Rightarrow> insert_by_key f x ys)"

definition get_ordered_traits :: "TraitTableManager \<Rightarrow> bool \<Rightarrow> error + string list" where
  "get_ordered_traits self metadata_last = sorted_by_key (nat_sort metadata_last) (header_traits self)"

subsection \<open>TraitTableManager.get\_subset\<close>

text \<open>
  The generator runs over the entries of a pass; what it yields is a list, followed by the
  exception of the pass if it reads the pass to its end and the pass ends with one. The
  lines that the pass prints are left out.
\<close>

fun get_subset_loop ::
  "string list \<Rightarrow> bool \<Rightarrow> nat \<Rightarrow> nat \<Rightarrow> error option \<Rightarrow> 'f TraitTableEntry list
    \<Rightarrow> 'f TraitTableEntry list \<times> error option" where
  "get_subset_loop subset_names remove to_find found r [] = ([], r)"
| "get_subset_loop subset_names remove to_find found r (entry # rest) =
     (if found = to_find \<and> \<not> remove then ([], None)
      else
        let exhausted = (if found = to_find then [entry] else []);
            (found', yielded) =
              (if name entry \<in> set subset_names
               then (if \<not> remove then (found + 1, [entry]) else (found, []))
               else (if remove then (found + 1, [entry]) else (found, [])))
        in (case get_subset_loop subset_names remove to_find found' r rest of
              (ys, r') \<Rightarrow> (exhausted @ yielded @ ys, r')))"

definition get_subset ::
  "(string \<Rightarrow> 'f option) \<Rightarrow> TraitTableManager \<Rightarrow> string list \<Rightarrow> string list \<Rightarrow> bool
    \<Rightarrow> 'f TraitTableEntry list \<times> error option" where
  "get_subset parse_float self file subset_names remove =
     (case iter_table parse_float self file of
        (evs, r) \<Rightarrow> get_subset_loop subset_names remove (length subset_names) 0 r (entries_of evs))"

subsection \<open>TraitTableManager.write\_entry\<close>

fun str_value :: "('f \<Rightarrow> string) \<Rightarrow> 'f trait_value \<Rightarrow> string" where
  \<comment> \<open>\<open>str(value)\<close>\<close>
  "str_value str_float (Numeric x) = str_float x"
| "str_value str_float (Text s) = s"

fun fields_to_write :: "('f \<Rightarrow> string) \<Rightarrow> 'f TraitTableEntry \<Rightarrow> string list \<Rightarrow> string list" where
  \<comment> \<open>what the loop appends to \<open>to_write\<close>\<close>
  "fields_to_write str_float entry [] = []"
| "fields_to_write str_float entry (trait # rest) =
     (case dict_get (traits entry) trait of
        Some v \<Rightarrow> str_value str_float v
      | None \<Rightarrow> ''NA'') # fields_to_write str_float entry rest"

definition write_entry ::
  "('f \<Rightarrow> string) \<Rightarrow> 'f TraitTableEntry \<Rightarrow> string \<Rightarrow> string list \<Rightarrow> string \<times> string list" where
  \<comment> \<open>the content of \<open>fh\<close> after the call, and the traits a warning was logged for\<close>
  "write_entry str_float entry fh trs =
     (fh @ join TAB (name entry # fields_to_write str_float entry trs) @ [NL],
      filter (\<lambda>t. dict_get (traits entry) t = None) trs)"

subsection \<open>The header label as the specification words it\<close>

definition strip_leading_marker :: "string \<Rightarrow> string" where
  \<comment> \<open>the specification's reading: one leading comment marker removed when present\<close>
  "strip_leading_marker s = (case s of [] \<Rightarrow> [] | c # cs \<Rightarrow> if c = CHR ''#'' then cs else s)"

subsection \<open>An instance of the float parameters\<close>

text \<open>
  The examples below need one concrete pair of functions for the two parameters. In this
  instance a number is a natural number. It is read from its decimal digits, with or without
  \<open>.0\<close> after them, and written as its decimal digits followed by \<open>.0\<close>, as
  \<open>float\<close> reads and \<open>str\<close> writes the floats that are natural numbers below
  \<open>10^16\<close>. Every other text is rejected; the examples use the instance only on
  texts of these two forms and on texts that \<open>float\<close> rejects as well.
\<close>

definition strip_point_zero :: "string \<Rightarrow> string" where
  "strip_point_zero s =
     (if 2 < length s \<and> drop (length s - 2) s = ''.0'' then take (length s - 2) s else s)"

definition decimal_float :: "string \<Rightarrow> nat option" where
  "decimal_float s =
     (if strip_point_zero s \<noteq> [] \<and> list_all is_digit (strip_point_zero s)
      then Some (foldl (\<lambda>a c. 10 * a + digit_val c) 0 (strip_point_zero s)) else None)"

fun decimal_digits :: "nat \<Rightarrow> string" where
  "decimal_digits n =
     (if n < 10 then [char_of (48 + n)]
      else decimal_digits (n div 10) @ [char_of (48 + n mod 10)])"

declare decimal_digits.simps [simp del]

definition decimal_str :: "nat \<Rightarrow> string" where
  "decimal_str n = decimal_digits n @ ''.0''"

section \<open>Theorems\<close>

lemmas str_defs = TAB_def NL_def isspace_def rstrip_def
lemmas init_defs = TraitTableManager_init_def readline_def replace_all_def
lemmas iter_defs = iter_table_def iter_line_def new_entry_def add_trait_def dict_keys_def

subsection \<open>Splitting, joining and stripping\<close>

lemma split_no_sep: "sep \<notin> set s \<Longrightarrow> split sep s = [s]"
  by (induction s) auto

lemma split_sep: "sep \<notin> set s \<Longrightarrow> split sep (s @ sep # t) = s # split sep t"
  by (induction s) auto

lemma split1_sep: "sep \<notin> set s \<Longrightarrow> split1 sep (s @ sep # t) = [s, t]"
  by (induction s) auto

lemma split_join:
  "fs \<noteq> [] \<Longrightarrow> \<forall>f \<in> set fs. sep \<notin> set f \<Longrightarrow> split sep (join sep fs) = fs"
  by (induction sep fs rule: join.induct) (auto simp: split_no_sep split_sep)

lemma join_snoc: "fs \<noteq> [] \<Longrightarrow> join sep (fs @ [f]) = join sep fs @ sep # f"
  by (induction sep fs rule: join.induct) auto

lemma rstrip_spaces: "list_all isspace ws \<Longrightarrow> rstrip (s @ ws) = rstrip s"
  by (simp add: rstrip_def dropWhile_append list_all_iff)

lemma rstrip_stable_last: "s \<noteq> [] \<Longrightarrow> rstrip s = s \<longleftrightarrow> \<not> isspace (last s)"
proof (induction s rule: rev_induct)
  case Nil then show ?case by simp
next
  case (snoc c s)
  show ?case
  proof (cases "isspace c")
    case True
    have "length (rstrip (s @ [c])) \<le> length s"
      using True by (simp add: rstrip_def) (metis length_dropWhile_le length_rev)
    then have "rstrip (s @ [c]) \<noteq> s @ [c]" by auto
    with True show ?thesis by simp
  next
    case False then show ?thesis by (simp add: rstrip_def)
  qed
qed

lemma rstrip_suffix: "l \<noteq> [] \<Longrightarrow> rstrip l = l \<Longrightarrow> rstrip (a @ l) = a @ l"
proof -
  assume "l \<noteq> []" "rstrip l = l"
  then have "\<not> isspace (last l)" by (simp add: rstrip_stable_last)
  moreover have "a @ l \<noteq> []" "last (a @ l) = last l" using \<open>l \<noteq> []\<close> by simp_all
  ultimately show ?thesis by (metis rstrip_stable_last)
qed

lemma rstrip_join:
  assumes "rstrip (last (f # fs)) = last (f # fs)" and "fs \<noteq> [] \<longrightarrow> last fs \<noteq> []"
  shows "rstrip (join sep (f # fs)) = join sep (f # fs)"
proof (cases fs rule: rev_cases)
  case Nil with assms show ?thesis by simp
next
  case (snoc gs g)
  with assms have g: "g \<noteq> []" "rstrip g = g" by simp_all
  have "join sep (f # fs) = (join sep (f # gs) @ [sep]) @ g"
    using snoc join_snoc [of "f # gs" sep g] by simp
  with rstrip_suffix [OF g] show ?thesis by metis
qed

lemma header_fields:
  assumes tabs: "\<forall>f \<in> set (h # ts). TAB \<notin> set f"
    and ws: "list_all isspace ws"
    and last: "rstrip (last (h # ts)) = last (h # ts)" "ts \<noteq> [] \<longrightarrow> last ts \<noteq> []"
  shows "split TAB (rstrip (join TAB (h # ts) @ ws)) = h # ts"
  using assms by (simp only: rstrip_spaces rstrip_join) (rule split_join, simp_all)

subsection \<open>Dictionaries\<close>

lemma dict_set_new: "k \<notin> fst ` set d \<Longrightarrow> dict_set k v d = d @ [(k, v)]"
  by (induction d) auto

subsection \<open>add\_trait\<close>

text \<open>
  C6. A call of \<open>add_trait\<close> for a trait name that the entry already has raises the
  duplicate error, whatever the value; so does a second call after a first one for a fresh
  name, with the same value or another. The first call for a fresh name returns normally and
  stores the number when the raw value parses as a float, the raw text unchanged otherwise,
  as the last item of the dictionary.
\<close>

theorem add_trait_duplicate_or_stored:
  "(trait \<in> set (dict_keys (traits self)) \<longrightarrow>
      fst (add_trait parse_float self trait v) = Some DuplicateTraitError) \<and>
   (trait \<notin> set (dict_keys (traits self)) \<longrightarrow>
      fst (add_trait parse_float self trait v) = None \<and>
      traits (snd (add_trait parse_float self trait v)) =
        traits self @ [(trait, case parse_float v of Some x \<Rightarrow> Numeric x | None \<Rightarrow> Text v)] \<and>
      name (snd (add_trait parse_float self trait v)) = name self \<and>
      fst (add_trait parse_float (snd (add_trait parse_float self trait v)) trait v')
        = Some DuplicateTraitError)"
  by (auto simp: add_trait_def to_number_def dict_keys_def dict_set_new split: option.splits)

theorem add_trait_duplicate_or_stored_witness:
  "fst (add_trait decimal_float \<lparr>name = ''otu1'', traits = [(''K1'', Numeric 3)]\<rparr> ''K1'' ''3'')
     = Some DuplicateTraitError \<and>
   fst (add_trait decimal_float \<lparr>name = ''otu1'', traits = [(''K1'', Numeric 3)]\<rparr> ''K2'' ''12'')
     = None \<and>
   traits (snd (add_trait decimal_float \<lparr>name = ''otu1'', traits = [(''K1'', Numeric 3)]\<rparr> ''K2'' ''12''))
     = [(''K1'', Numeric 3), (''K2'', Numeric 12)] \<and>
   traits (snd (add_trait decimal_float \<lparr>name = ''otu1'', traits = [(''K1'', Numeric 3)]\<rparr> ''K3'' ''soil''))
     = [(''K1'', Numeric 3), (''K3'', Text ''soil'')]"
  using add_trait_duplicate_or_stored
    [of "''K1''" "\<lparr>name = ''otu1'', traits = [(''K1'', Numeric 3)]\<rparr>" decimal_float "''3''"]
    add_trait_duplicate_or_stored
    [of "''K2''" "\<lparr>name = ''otu1'', traits = [(''K1'', Numeric 3)]\<rparr>" decimal_float "''12''"]
    add_trait_duplicate_or_stored
    [of "''K3''" "\<lparr>name = ''otu1'', traits = [(''K1'', Numeric 3)]\<rparr>" decimal_float "''soil''"]
  by (simp add: dict_keys_def decimal_float_def strip_point_zero_def is_digit_def digit_val_def)

text \<open>
  C10. A call of \<open>add_trait\<close> that raises leaves the entry as it was: the error is the
  duplicate error, the trait was present before the call, and the entry after the call is
  the entry before it.
\<close>

theorem add_trait_failure_atomic:
  "fst (add_trait parse_float self trait v) = Some err \<Longrightarrow>
     snd (add_trait parse_float self trait v) = self \<and> err = DuplicateTraitError \<and>
     trait \<in> set (dict_keys (traits self))"
  by (auto simp: add_trait_def split: if_splits)

theorem add_trait_failure_atomic_witness:
  "fst (add_trait decimal_float \<lparr>name = ''otu1'', traits = [(''K1'', Numeric 3)]\<rparr> ''K1'' ''4'')
     = Some DuplicateTraitError \<and>
   snd (add_trait decimal_float \<lparr>name = ''otu1'', traits = [(''K1'', Numeric 3)]\<rparr> ''K1'' ''4'')
     = \<lparr>name = ''otu1'', traits = [(''K1'', Numeric 3)]\<rparr>"
proof -
  have raised:
    "fst (add_trait decimal_float \<lparr>name = ''otu1'', traits = [(''K1'', Numeric 3)]\<rparr> ''K1'' ''4'')
       = Some DuplicateTraitError"
    by (simp add: add_trait_def dict_keys_def)
  from add_trait_failure_atomic [OF raised] raised show ?thesis by simp
qed

subsection \<open>correlation\<close>

lemma shared_traits_rows:
  assumes "distinct (map fst d)"
    and "fst ` set d \<inter> fst ` set acc = {}"
    and "\<forall>(t, st) \<in> set d. dict_get (traits self) t = Some st"
  shows "shared_traits self other (map fst d) acc
           = acc @ concat (map (\<lambda>(t, st). case dict_get (traits other) t of
                                              None \<Rightarrow> [] | Some ot \<Rightarrow> [(t, st, ot)]) d)"
  using assms
proof (induction d arbitrary: acc)
  case Nil
  then show ?case by simp
next
  case (Cons p d)
  obtain t st where p: "p = (t, st)" by (cases p)
  have self_t: "dict_get (traits self) t = Some st"
    using Cons.prems(3) p by simp
  have rest: "distinct (map fst d)" "\<forall>(t, st) \<in> set d. dict_get (traits self) t = Some st"
    using Cons.prems by simp_all
  show ?case
  proof (cases "dict_get (traits other) t")
    case None
    have "fst ` set d \<inter> fst ` set acc = {}" using Cons.prems(2) by auto
    from Cons.IH [OF rest(1) this rest(2)] None self_t p show ?thesis by simp
  next
    case (Some ot)
    have fresh: "t \<notin> fst ` set acc" using Cons.prems(2) p by auto
    then have set_t: "dict_set t (st, ot) acc = acc @ [(t, st, ot)]"
      by (rule dict_set_new)
    have "t \<notin> fst ` set d" using Cons.prems(1) p by simp
    then have "fst ` set d \<inter> fst ` set (acc @ [(t, st, ot)]) = {}"
      using Cons.prems(2) by auto
    from Cons.IH [OF rest(1) this rest(2)] Some self_t p set_t show ?thesis by simp
  qed
qed

lemma shared_rows_empty:
  "concat (map (\<lambda>(t, st). case dict_get (traits other) t of
                              None \<Rightarrow> [] | Some ot \<Rightarrow> [(t, st, ot)]) d) = []
     \<longleftrightarrow> fst ` set d \<inter> set (dict_keys (traits other)) = {}"
proof (induction d)
  case Nil
  then show ?case by simp
next
  case (Cons p d)
  obtain t st where p: "p = (t, st)" by (cases p)
  have "dict_get (traits other) t = None \<longleftrightarrow> t \<notin> set (dict_keys (traits other))"
    by (simp add: dict_get_def dict_keys_def map_of_eq_None_iff)
  with Cons p show ?case by (auto split: option.splits)
qed

text \<open>
  C7. Without a list of traits, \<open>correlation\<close> takes its candidates from this entry's
  own dictionary, in its order: the rows handed to pandas are the traits of this entry that
  the other entry has too, each with this entry's value and the other's. A trait that only
  the other entry has gives no row. When the two entries share no trait name the call
  raises the error of no shared traits.
\<close>

theorem correlation_default_traits:
  assumes "distinct (dict_keys (traits self))"
  shows "correlation spearman self other None =
           (let pandas_dict =
                  concat (map (\<lambda>(t, st). case dict_get (traits other) t of
                                             None \<Rightarrow> [] | Some ot \<Rightarrow> [(t, st, ot)]) (traits self))
            in if set (dict_keys (traits self)) \<inter> set (dict_keys (traits other)) = {}
               then Inl NoSharedTraitsError else Inr (spearman pandas_dict))"
proof -
  have "\<forall>(t, st) \<in> set (traits self). dict_get (traits self) t = Some st"
    using assms by (auto simp: dict_get_def dict_keys_def)
  with assms have "shared_traits self other (map fst (traits self)) []
           = concat (map (\<lambda>(t, st). case dict_get (traits other) t of
                                       None \<Rightarrow> [] | Some ot \<Rightarrow> [(t, st, ot)]) (traits self))"
    using shared_traits_rows [of "traits self" "[]" self other] by (simp add: dict_keys_def)
  then show ?thesis
    using shared_rows_empty [of other "traits self"]
    by (simp add: correlation_def Let_def dict_keys_def)
qed

theorem correlation_default_traits_witness:
  "correlation (\<lambda>pandas_dict. pandas_dict)
     \<lparr>name = ''x'', traits = [(''K1'', Numeric (1::nat)), (''K2'', Text ''soil'')]\<rparr>
     \<lparr>name = ''y'', traits = [(''K3'', Numeric 7), (''K2'', Text ''water'')]\<rparr> None
   = Inr [(''K2'', Text ''soil'', Text ''water'')] \<and>
   correlation (\<lambda>pandas_dict. pandas_dict)
     \<lparr>name = ''x'', traits = [(''K1'', Numeric (1::nat)), (''K2'', Text ''soil'')]\<rparr>
     \<lparr>name = ''z'', traits = [(''K3'', Numeric 7), (''K4'', Numeric 2)]\<rparr> None
   = Inl NoSharedTraitsError"
proof -
  have d: "distinct (dict_keys (traits \<lparr>name = ''x'',
             traits = [(''K1'', Numeric (1::nat)), (''K2'', Text ''soil'')]\<rparr>))"
    by (simp add: dict_keys_def)
  show ?thesis
    using correlation_default_traits [OF d, of "\<lambda>pandas_dict. pandas_dict"
        "\<lparr>name = ''y'', traits = [(''K3'', Numeric 7), (''K2'', Text ''water'')]\<rparr>"]
      correlation_default_traits [OF d, of "\<lambda>pandas_dict. pandas_dict"
        "\<lparr>name = ''z'', traits = [(''K3'', Numeric 7), (''K4'', Numeric 2)]\<rparr>"]
    by (simp add: dict_keys_def dict_get_def)
qed

subsection \<open>The header line\<close>

text \<open>
  C9, as the code has it. For a first line made of the label and the trait names joined by
  tabs, followed by white space only, where no field holds a tab and the last field does
  not end in white space (and is not empty when it is a trait name), \<open>entry_header\<close> is
  the label with every \<open>#\<close> removed, wherever it stands, and \<open>header_traits\<close> are the
  trait names in the order of the file.
\<close>

theorem init_header_fields:
  assumes "\<forall>f \<in> set (h # ts). TAB \<notin> set f"
    and "list_all isspace ws"
    and "rstrip (last (h # ts)) = last (h # ts)" and "ts \<noteq> [] \<longrightarrow> last ts \<noteq> []"
  shows "entry_header (TraitTableManager_init path ((join TAB (h # ts) @ ws) # rest))
           = filter (\<lambda>c. c \<noteq> CHR ''#'') h \<and>
         header_traits (TraitTableManager_init path ((join TAB (h # ts) @ ws) # rest)) = ts"
  using header_fields [OF assms]
  by (simp add: TraitTableManager_init_def readline_def replace_all_def)

theorem init_header_fields_witness:
  "entry_header (TraitTableManager_init ''traits.tab''
      [join TAB [''##OTU#ID'', ''K1'', ''K2''] @ [NL], join TAB [''x'', ''1'', ''2''] @ [NL]])
     = ''OTUID'' \<and>
   header_traits (TraitTableManager_init ''traits.tab''
      [join TAB [''##OTU#ID'', ''K1'', ''K2''] @ [NL], join TAB [''x'', ''1'', ''2''] @ [NL]])
     = [''K1'', ''K2'']"
proof -
  have a: "\<forall>f \<in> set [''##OTU#ID'', ''K1'', ''K2'']. TAB \<notin> set f" by (simp add: TAB_def)
  have b: "list_all isspace [NL]" by (simp add: str_defs)
  have c: "rstrip (last [''##OTU#ID'', ''K1'', ''K2'']) = last [''##OTU#ID'', ''K1'', ''K2'']"
    by (simp add: str_defs)
  have d: "[''K1'', ''K2''] \<noteq> [] \<longrightarrow> last [''K1'', ''K2''] \<noteq> []" by simp
  from init_header_fields [OF a b c d, of "''traits.tab''" "[join TAB [''x'', ''1'', ''2''] @ [NL]]"]
  show ?thesis by simp
qed

text \<open>
  C9 as stated fails on the label \<open>#OTU#ID\<close>: removing one leading marker leaves
  \<open>OTU#ID\<close>, the code stores \<open>OTUID\<close>.
\<close>

theorem init_removes_every_marker_counterexample:
  "entry_header (TraitTableManager_init ''traits.tab'' [join TAB [''#OTU#ID'', ''K1''] @ [NL]])
     = ''OTUID'' \<and>
   strip_leading_marker (hd (split TAB (join TAB [''#OTU#ID'', ''K1''] @ [NL]))) = ''OTU#ID'' \<and>
   entry_header (TraitTableManager_init ''traits.tab'' [join TAB [''#OTU#ID'', ''K1''] @ [NL]])
     \<noteq> strip_leading_marker (hd (split TAB (join TAB [''#OTU#ID'', ''K1''] @ [NL])))"
  by (simp add: str_defs init_defs strip_leading_marker_def)

subsection \<open>Rows and passes\<close>

lemma add_trait_fresh:
  "trait \<notin> set (dict_keys (traits tte)) \<Longrightarrow>
   add_trait parse_float tte trait v
     = (None, tte\<lparr>traits := traits tte @ [(trait, to_number parse_float v)]\<rparr>)"
  by (simp add: add_trait_def dict_keys_def dict_set_new)

lemma add_values_duplicate:
  assumes "dict_keys (traits tte) = take i hdr" and "distinct (take i hdr)"
    and "\<not> distinct (take (i + length vals) hdr)"
  shows "add_values parse_float hdr i vals tte = Inl DuplicateTraitError"
  using assms
proof (induction vals arbitrary: i tte)
  case Nil
  then show ?case by simp
next
  case (Cons v vals)
  have less: "i < length hdr"
  proof (rule ccontr)
    assume "\<not> i < length hdr"
    then have "take (i + length (v # vals)) hdr = take i hdr" by simp
    with Cons.prems show False by simp
  qed
  show ?case
  proof (cases "hdr ! i \<in> set (take i hdr)")
    case True
    with less Cons.prems(1) show ?thesis by (simp add: add_trait_def)
  next
    case False
    let ?tte = "tte\<lparr>traits := traits tte @ [(hdr ! i, to_number parse_float v)]\<rparr>"
    have step: "add_trait parse_float tte (hdr ! i) v = (None, ?tte)"
      using False Cons.prems(1) by (simp add: add_trait_fresh)
    have keys: "dict_keys (traits ?tte) = take (Suc i) hdr"
      using less Cons.prems(1) by (simp add: dict_keys_def take_Suc_conv_app_nth)
    have dist: "distinct (take (Suc i) hdr)"
      using less False Cons.prems(2) by (simp add: take_Suc_conv_app_nth)
    have "add_values parse_float hdr (Suc i) vals ?tte = Inl DuplicateTraitError"
      using Cons.prems(3) by (intro Cons.IH [OF keys dist]) simp
    with less step show ?thesis by simp
  qed
qed

lemma add_values_distinct:
  assumes "dict_keys (traits tte) = take i hdr" and "distinct (take (i + length vals) hdr)"
    and "i + length vals \<le> length hdr"
  shows "add_values parse_float hdr i vals tte
           = Inr (tte\<lparr>traits := traits tte
                   @ map (\<lambda>(t, v). (t, to_number parse_float v)) (zip (drop i hdr) vals)\<rparr>)"
  using assms
proof (induction vals arbitrary: i tte)
  case Nil
  then show ?case by simp
next
  case (Cons v vals)
  then have less: "i < length hdr" by simp
  have dist: "distinct (take (Suc i) hdr)"
    using Cons.prems(2) by (metis distinct_take take_take min.cobounded1 min_def add_Suc_right le_add1 length_Cons not_less_eq_eq)
  then have fresh: "hdr ! i \<notin> set (take i hdr)"
    using less by (simp add: take_Suc_conv_app_nth)
  let ?tte = "tte\<lparr>traits := traits tte @ [(hdr ! i, to_number parse_float v)]\<rparr>"
  have step: "add_trait parse_float tte (hdr ! i) v = (None, ?tte)"
    using fresh Cons.prems(1) by (simp add: add_trait_fresh)
  have keys: "dict_keys (traits ?tte) = take (Suc i) hdr"
    using less Cons.prems(1) by (simp add: dict_keys_def take_Suc_conv_app_nth)
  have "add_values parse_float hdr (Suc i) vals ?tte
          = Inr (?tte\<lparr>traits := traits ?tte
                  @ map (\<lambda>(t, v). (t, to_number parse_float v)) (zip (drop (Suc i) hdr) vals)\<rparr>)"
    using Cons.prems by (intro Cons.IH [OF keys]) simp_all
  moreover have "drop i hdr = hdr ! i # drop (Suc i) hdr"
    using less by (simp add: Cons_nth_drop_Suc)
  ultimately show ?case using less step by simp
qed

lemma iter_lines_append:
  assumes "iter_lines parse_float hdr vars before = (evs, None)"
    and "\<And>vars'. iter_lines parse_float hdr vars' rest = (evs', r)"
  shows "iter_lines parse_float hdr vars (before @ rest) = (evs @ evs', r)"
  using assms(1)
proof (induction before arbitrary: vars evs)
  case Nil
  then show ?case using assms(2) by simp
next
  case (Cons l before)
  then show ?case
    by (auto split: prod.splits sum.splits)
qed

lemma iter_line_duplicate:
  assumes "split1 TAB (rstrip line) = [n, tv]"
    and "\<not> distinct (take (length (split TAB tv)) hdr)"
  shows "iter_line parse_float hdr vars line = ([], Inl DuplicateTraitError)"
proof -
  have "line \<noteq> []" using assms(1) by (auto simp: rstrip_def)
  moreover have "add_values parse_float hdr 0 (split TAB tv) (new_entry n)
                   = Inl DuplicateTraitError"
    using assms(2) by (intro add_values_duplicate) (simp_all add: new_entry_def dict_keys_def)
  ultimately show ?thesis using assms(1) by (simp add: iter_line_def)
qed

text \<open>
  C4, as the code has it. When a row splits into a name and values and the header repeats
  a trait name among the columns that the row fills, \<open>add_trait\<close> raises the duplicate
  error for that row, no entry is yielded for it, and the error ends the pass: the pass has
  yielded what the lines before the row gave, and no line after the row is read.
\<close>

theorem iter_duplicate_trait_ends_pass:
  assumes "iter_table parse_float self (header # before) = (evs, None)"
    and "split1 TAB (rstrip line) = [n, tv]"
    and "\<not> distinct (take (length (split TAB tv)) (header_traits self))"
  shows "iter_table parse_float self (header # before @ line # after)
           = (evs, Some DuplicateTraitError)"
proof -
  have "iter_lines parse_float (header_traits self) vars' (line # after)
          = ([], Some DuplicateTraitError)" for vars'
    by (simp add: iter_line_duplicate [OF assms(2,3)])
  from iter_lines_append [OF _ this] assms(1) show ?thesis
    by (simp add: iter_table_def)
qed

theorem iter_duplicate_trait_ends_pass_witness:
  "iter_table decimal_float
     \<lparr>trait_table_f = ''traits.tab'', entry_header = ''OTU'', header_traits = [''K1'', ''K1'']\<rparr>
     [join TAB [''#OTU'', ''K1'', ''K1''] @ [NL], join TAB [''z'', ''5''] @ [NL],
      join TAB [''x'', ''1'', ''2''] @ [NL], join TAB [''y'', ''3''] @ [NL]]
   = ([Yield \<lparr>name = ''z'', traits = [(''K1'', Numeric 5)]\<rparr>], Some DuplicateTraitError)"
proof -
  let ?self = "\<lparr>trait_table_f = ''traits.tab'', entry_header = ''OTU'',
                header_traits = [''K1'', ''K1'']\<rparr>"
  have before: "iter_table decimal_float ?self
                  ((join TAB [''#OTU'', ''K1'', ''K1''] @ [NL]) # [join TAB [''z'', ''5''] @ [NL]])
                = ([Yield \<lparr>name = ''z'', traits = [(''K1'', Numeric 5)]\<rparr>], None)"
    by (simp add: str_defs iter_defs to_number_def decimal_float_def strip_point_zero_def is_digit_def digit_val_def)
  have row: "split1 TAB (rstrip (join TAB [''x'', ''1'', ''2''] @ [NL])) = [''x'', join TAB [''1'', ''2'']]"
    by (simp add: str_defs)
  have dup: "\<not> distinct (take (length (split TAB (join TAB [''1'', ''2'']))) (header_traits ?self))"
    by (simp add: str_defs)
  from iter_duplicate_trait_ends_pass [OF before row dup, of "[join TAB [''y'', ''3''] @ [NL]]"]
  show ?thesis by simp
qed

text \<open>
  C4 as stated fails on a header that names K1 twice: the row of x raises the duplicate
  error and the pass ends without the entry of z, a row that the same table yields when the
  row of x is not in the file.
\<close>

theorem iter_duplicate_trait_aborts_counterexample:
  "iter_table decimal_float
     (TraitTableManager_init ''traits.tab''
        [join TAB [''#OTU'', ''K1'', ''K1''] @ [NL], join TAB [''x'', ''1'', ''2''] @ [NL],
         join TAB [''z'', ''5''] @ [NL]])
     [join TAB [''#OTU'', ''K1'', ''K1''] @ [NL], join TAB [''x'', ''1'', ''2''] @ [NL],
      join TAB [''z'', ''5''] @ [NL]]
   = ([], Some DuplicateTraitError) \<and>
   iter_table decimal_float
     (TraitTableManager_init ''traits.tab''
        [join TAB [''#OTU'', ''K1'', ''K1''] @ [NL], join TAB [''z'', ''5''] @ [NL]])
     [join TAB [''#OTU'', ''K1'', ''K1''] @ [NL], join TAB [''z'', ''5''] @ [NL]]
   = ([Yield \<lparr>name = ''z'', traits = [(''K1'', Numeric 5)]\<rparr>], None)"
  by (simp add: str_defs init_defs iter_defs to_number_def decimal_float_def strip_point_zero_def is_digit_def digit_val_def)

subsection \<open>get\_subset without remove\<close>

text \<open>
  Without \<open>remove\<close> the generator yields the first \<open>len(subset_names)\<close> entries whose
  name is listed, and returns at the entry that follows them. When the names of the entries
  are distinct these are all the listed entries, and a return before the end of the pass
  means that every listed name has been met.
\<close>

lemma get_subset_loop_keep_yields:
  "found \<le> n \<Longrightarrow>
   fst (get_subset_loop names False n found r es)
     = take (n - found) (filter (\<lambda>e. name e \<in> set names) es)"
proof (induction es arbitrary: found)
  case Nil
  then show ?case by simp
next
  case (Cons e es)
  show ?case
  proof (cases "found = n")
    case True
    then show ?thesis by simp
  next
    case False
    with Cons.prems have less: "found < n" by simp
    then have "n - found = Suc (n - Suc found)" by simp
    with less Cons.IH [of "Suc found"] Cons.IH [of found] show ?thesis
      by (auto split: prod.splits)
  qed
qed

lemma get_subset_loop_keep_stops:
  "found + length (filter (\<lambda>e. name e \<in> set names) before) = n \<Longrightarrow>
   get_subset_loop names False n found r (before @ entry # rest)
     = (filter (\<lambda>e. name e \<in> set names) before, None)"
  by (induction before arbitrary: found) auto

lemma get_subset_loop_keep_to_end:
  "found + length (filter (\<lambda>e. name e \<in> set names) es) < n \<Longrightarrow>
   get_subset_loop names False n found r es = (filter (\<lambda>e. name e \<in> set names) es, r)"
  by (induction es arbitrary: found) auto

lemma stop_all_matched:
  assumes "distinct (map name before)"
    and "length (filter (\<lambda>e. name e \<in> set names) before) = length names"
  shows "set names \<subseteq> name ` set before"
proof -
  let ?hits = "filter (\<lambda>e. name e \<in> set names) before"
  have "distinct (map name ?hits)"
    using assms(1) by (simp add: distinct_map_filter)
  then have "card (name ` set ?hits) = length names"
    using assms(2) by (metis distinct_card length_map set_map)
  moreover have "card (set names) \<le> length names" by (rule card_length)
  moreover have "name ` set ?hits \<subseteq> set names" by auto
  ultimately have "name ` set ?hits = set names"
    by (intro card_seteq) simp_all
  then show ?thesis by auto
qed

lemma get_subset_loop_keep_distinct:
  assumes "distinct (map name es)"
  shows "fst (get_subset_loop names False (length names) 0 r es)
           = filter (\<lambda>e. name e \<in> set names) es"
proof -
  let ?hits = "filter (\<lambda>e. name e \<in> set names) es"
  have "distinct (map name ?hits)"
    using assms by (simp add: distinct_map_filter)
  then have "length ?hits = card (name ` set ?hits)"
    by (metis distinct_card length_map set_map)
  also have "\<dots> \<le> card (set names)"
    by (intro card_mono) auto
  also have "\<dots> \<le> length names" by (rule card_length)
  finally show ?thesis by (simp add: get_subset_loop_keep_yields)
qed

text \<open>
  When a pass yields entries named a, b, c, d in this order, \<open>get_subset\<close> with the
  names b and d and \<open>remove = False\<close> yields the second and the fourth entry and nothing
  else, and reads the pass to its end, so it ends as the pass ends (\<open>r\<close>).
\<close>

lemma get_subset_keep_abcd:
  assumes "iter_table parse_float self file = (evs, r)"
    and "map name (entries_of evs) = [''a'', ''b'', ''c'', ''d'']"
  shows "get_subset parse_float self file [''b'', ''d''] False
           = ([entries_of evs ! 1, entries_of evs ! 3], r) \<and>
         [entries_of evs ! 1, entries_of evs ! 3]
           = filter (\<lambda>e. name e \<in> set [''b'', ''d'']) (entries_of evs)"
proof -
  from assms(2) obtain ea eb ec ed where es: "entries_of evs = [ea, eb, ec, ed]"
    and names: "name ea = ''a''" "name eb = ''b''" "name ec = ''c''" "name ed = ''d''"
    by (auto simp: map_eq_Cons_conv)
  show ?thesis
    using assms(1) by (simp add: get_subset_def es names)
qed

lemma get_subset_keep_abcd_plain_file:
  "get_subset decimal_float
     (TraitTableManager_init ''traits.tab''
        [join TAB [''#OTU'', ''K1''] @ [NL], join TAB [''a'', ''1''] @ [NL],
         join TAB [''b'', ''2''] @ [NL], join TAB [''c'', ''3''] @ [NL],
         join TAB [''d'', ''4''] @ [NL]])
     [join TAB [''#OTU'', ''K1''] @ [NL], join TAB [''a'', ''1''] @ [NL],
      join TAB [''b'', ''2''] @ [NL], join TAB [''c'', ''3''] @ [NL],
      join TAB [''d'', ''4''] @ [NL]]
     [''b'', ''d''] False
   = ([\<lparr>name = ''b'', traits = [(''K1'', Numeric 2)]\<rparr>,
       \<lparr>name = ''d'', traits = [(''K1'', Numeric 4)]\<rparr>], None)"
proof -
  let ?file = "[join TAB [''#OTU'', ''K1''] @ [NL], join TAB [''a'', ''1''] @ [NL],
      join TAB [''b'', ''2''] @ [NL], join TAB [''c'', ''3''] @ [NL],
      join TAB [''d'', ''4''] @ [NL]]"
  let ?evs = "[Yield \<lparr>name = ''a'', traits = [(''K1'', Numeric 1)]\<rparr>,
               Yield \<lparr>name = ''b'', traits = [(''K1'', Numeric 2)]\<rparr>,
               Yield \<lparr>name = ''c'', traits = [(''K1'', Numeric 3)]\<rparr>,
               Yield \<lparr>name = ''d'', traits = [(''K1'', Numeric (4::nat))]\<rparr>]"
  have pass: "iter_table decimal_float (TraitTableManager_init ''traits.tab'' ?file) ?file
                = (?evs, None)"
    by (simp add: str_defs init_defs iter_defs to_number_def decimal_float_def strip_point_zero_def is_digit_def
        digit_val_def)
  have names: "map name (entries_of ?evs) = [''a'', ''b'', ''c'', ''d'']"
    by simp
  from get_subset_keep_abcd [OF pass names] show ?thesis by simp
qed

text \<open>
  C8. On the table with the rows a, b, a blank line, c, d, \<open>get_subset\<close> with the names
  b and d and \<open>remove = False\<close> yields the entry of b twice and returns at c: the entry
  of d is not yielded. The pass yields b again for the blank line, and the counter takes the
  repeated entry for the second listed name.
\<close>

theorem get_subset_keep_blank_line_misses_entry:
  "get_subset parse_float
     (TraitTableManager_init ''traits.tab''
        [join TAB [''#OTU'', ''K1''] @ [NL], join TAB [''a'', ''1''] @ [NL],
         join TAB [''b'', ''2''] @ [NL], [NL], join TAB [''c'', ''3''] @ [NL],
         join TAB [''d'', ''4''] @ [NL]])
     [join TAB [''#OTU'', ''K1''] @ [NL], join TAB [''a'', ''1''] @ [NL],
      join TAB [''b'', ''2''] @ [NL], [NL], join TAB [''c'', ''3''] @ [NL],
      join TAB [''d'', ''4''] @ [NL]]
     [''b'', ''d''] False
   = ([\<lparr>name = ''b'', traits = [(''K1'', to_number parse_float ''2'')]\<rparr>,
       \<lparr>name = ''b'', traits = [(''K1'', to_number parse_float ''2'')]\<rparr>], None)"
  by (simp add: get_subset_def str_defs init_defs iter_defs)

subsection \<open>get\_subset with remove\<close>

lemma get_subset_loop_remove_abcd:
  "get_subset_loop [''b'', ''d''] True 2 0 r
     [\<lparr>name = ''a'', traits = ta\<rparr>, \<lparr>name = ''b'', traits = tb\<rparr>,
      \<lparr>name = ''c'', traits = tc\<rparr>, \<lparr>name = ''d'', traits = td\<rparr>]
   = ([\<lparr>name = ''a'', traits = ta\<rparr>, \<lparr>name = ''c'', traits = tc\<rparr>,
       \<lparr>name = ''d'', traits = td\<rparr>], r)"
  by simp

text \<open>
  C1. On a table with the entries a, b, c, d, \<open>get_subset\<close> with the names b and d and
  \<open>remove = True\<close> yields a, c and d: the counter reaches the number of names at c, so
  the test at the head of the loop yields d before its name is looked at.
\<close>

theorem get_subset_remove_yields_listed_entry:
  "get_subset parse_float
     (TraitTableManager_init ''traits.tab''
        [join TAB [''#OTU'', ''K1''] @ [NL], join TAB [''a'', ''1''] @ [NL],
         join TAB [''b'', ''2''] @ [NL], join TAB [''c'', ''3''] @ [NL],
         join TAB [''d'', ''4''] @ [NL]])
     [join TAB [''#OTU'', ''K1''] @ [NL], join TAB [''a'', ''1''] @ [NL],
      join TAB [''b'', ''2''] @ [NL], join TAB [''c'', ''3''] @ [NL],
      join TAB [''d'', ''4''] @ [NL]]
     [''b'', ''d''] True
   = ([\<lparr>name = ''a'', traits = [(''K1'', to_number parse_float ''1'')]\<rparr>,
       \<lparr>name = ''c'', traits = [(''K1'', to_number parse_float ''3'')]\<rparr>,
       \<lparr>name = ''d'', traits = [(''K1'', to_number parse_float ''4'')]\<rparr>], None)"
  by (simp add: get_subset_def str_defs init_defs iter_defs)

subsection \<open>get\_ordered\_traits\<close>

lemma nat_sort_metadata_same_key:
  "startswith entry ''metadata'' \<Longrightarrow> nat_sort True entry = nat_sort True ''metadata''"
  by (simp add: nat_sort_def startswith_def)

text \<open>
  C2. For the header traits trait2, trait10, metadata\_b, trait1, metadata\_a and
  \<open>metadata_last = True\<close> the result is trait1, trait10, trait2, metadata\_b,
  metadata\_a: the key has one token for each character, so 10 is the digits 1 and 0 and
  comes before 2, and every name that starts with metadata has the same key, so these keep
  the order of the header.
\<close>

theorem get_ordered_traits_by_character:
  "get_ordered_traits
     (TraitTableManager_init ''traits.tab''
        [join TAB [''#OTU'', ''trait2'', ''trait10'', ''metadata_b'', ''trait1'', ''metadata_a'']
           @ [NL]])
     True
   = Inr [''trait1'', ''trait10'', ''trait2'', ''metadata_b'', ''metadata_a'']"
  by (simp add: get_ordered_traits_def str_defs init_defs nat_sort_def startswith_def
      convert_def is_digit_def digit_val_def)

subsection \<open>Lines that do not split\<close>

lemma iter_line_no_tab:
  assumes "line \<noteq> []" and "TAB \<notin> set (rstrip line)"
  shows "iter_line parse_float hdr None line = ([Print line], Inl UnboundLocalError)"
    and "add_values parse_float hdr 0 (split TAB tv) (new_entry n) = Inr tte \<Longrightarrow>
         iter_line parse_float hdr (Some (n, tv)) line
           = ([Print line, Yield tte], Inr (Some (n, tv)))"
proof -
  have one: "split1 TAB s = [s]" if "TAB \<notin> set s" for s
    using that by (induction s) auto
  show "iter_line parse_float hdr None line = ([Print line], Inl UnboundLocalError)"
    using assms by (simp add: iter_line_def one)
  show "iter_line parse_float hdr (Some (n, tv)) line
          = ([Print line, Yield tte], Inr (Some (n, tv)))"
    if "add_values parse_float hdr 0 (split TAB tv) (new_entry n) = Inr tte"
    using assms that by (simp add: iter_line_def one)
qed

text \<open>
  C3. A blank line after the row of x is printed and then yields the entry of x a second
  time, from the variables of the row before; parsing goes on with the row of y. A blank
  line as the first data line is printed and ends the pass with the error of an unbound
  local variable.
\<close>

theorem iter_blank_line_repeats_entry:
  "iter_table parse_float
     (TraitTableManager_init ''traits.tab''
        [join TAB [''#OTU'', ''K1''] @ [NL], join TAB [''x'', ''1''] @ [NL], [NL],
         join TAB [''y'', ''2''] @ [NL]])
     [join TAB [''#OTU'', ''K1''] @ [NL], join TAB [''x'', ''1''] @ [NL], [NL],
      join TAB [''y'', ''2''] @ [NL]]
   = ([Yield \<lparr>name = ''x'', traits = [(''K1'', to_number parse_float ''1'')]\<rparr>,
       Print [NL],
       Yield \<lparr>name = ''x'', traits = [(''K1'', to_number parse_float ''1'')]\<rparr>,
       Yield \<lparr>name = ''y'', traits = [(''K1'', to_number parse_float ''2'')]\<rparr>], None) \<and>
   iter_table parse_float
     (TraitTableManager_init ''traits.tab''
        [join TAB [''#OTU'', ''K1''] @ [NL], [NL], join TAB [''y'', ''2''] @ [NL]])
     [join TAB [''#OTU'', ''K1''] @ [NL], [NL], join TAB [''y'', ''2''] @ [NL]]
   = ([Print [NL]], Some UnboundLocalError)"
  by (simp add: str_defs init_defs iter_defs)

subsection \<open>write\_entry and reading the row back\<close>

lemma fields_to_write_map:
  "fields_to_write str_float entry trs
     = map (\<lambda>t. case dict_get (traits entry) t of
                   Some v \<Rightarrow> str_value str_float v | None \<Rightarrow> ''NA'') trs"
  by (induction trs) auto

lemma written_row_splits:
  assumes "fs \<noteq> []" and "TAB \<notin> set n" and "\<forall>f \<in> set fs. TAB \<notin> set f"
    and "last fs \<noteq> []" and "\<not> isspace (last (last fs))"
  shows "split1 TAB (rstrip (join TAB (n # fs) @ [NL])) = [n, join TAB fs]"
    and "split TAB (join TAB fs) = fs"
proof -
  have "rstrip (last (n # fs)) = last (n # fs)"
    using assms(1,4,5) by (simp add: rstrip_stable_last)
  then have "rstrip (join TAB (n # fs)) = join TAB (n # fs)"
    using assms(4) by (intro rstrip_join) simp_all
  moreover have "list_all isspace [NL]" by (simp add: NL_def isspace_def)
  ultimately have "rstrip (join TAB (n # fs) @ [NL]) = join TAB (n # fs)"
    by (simp only: rstrip_spaces)
  moreover have "join TAB (n # fs) = n @ TAB # join TAB fs"
    using assms(1) by (cases fs) simp_all
  ultimately show "split1 TAB (rstrip (join TAB (n # fs) @ [NL])) = [n, join TAB fs]"
    using assms(2) by (simp add: split1_sep)
  show "split TAB (join TAB fs) = fs"
    using assms(1,3) by (rule split_join)
qed

lemma to_number_reads_back:
  "to_number parse_float v = Text s \<Longrightarrow> s = v \<and> parse_float s = None"
  by (auto simp: to_number_def split: option.splits)

lemma universal_newlines_none: "CR \<notin> set s \<Longrightarrow> universal_newlines s = s"
  by (induction s rule: universal_newlines.induct) auto

lemma lines_of_line: "NL \<notin> set s \<Longrightarrow> lines_of (s @ NL # rest) = (s @ [NL]) # lines_of rest"
  by (induction s) auto

lemma join_no_char:
  "c \<noteq> sep \<Longrightarrow> \<forall>f \<in> set fs. c \<notin> set f \<Longrightarrow> c \<notin> set (join sep fs)"
  by (induction sep fs rule: join.induct) auto

lemma read_lines_two:
  assumes "NL \<notin> set a" "CR \<notin> set a" "NL \<notin> set b" "CR \<notin> set b"
  shows "read_lines (a @ [NL] @ b @ [NL]) = [a @ [NL], b @ [NL]]"
proof -
  have "CR \<notin> set (a @ [NL] @ b @ [NL])"
    using assms by (simp add: CR_def NL_def)
  then have "read_lines (a @ [NL] @ b @ [NL]) = lines_of (a @ NL # (b @ NL # []))"
    by (simp add: read_lines_def universal_newlines_none)
  also have "\<dots> = [a @ [NL], b @ [NL]]"
    using assms by (simp add: lines_of_line)
  finally show ?thesis .
qed

text \<open>
  C5, as the code has it. A file gets a header line and then the row of an entry, and is
  read back. Take an entry and a trait order that is not empty and names no trait twice,
  such that neither the name nor a written field holds a tab or a line break, and the last
  written field is not empty and does not end in white space. Let every stored number of
  the order parse back from its rendering, let no stored text of the order parse as a
  number, and let \<open>NA\<close> not parse as a number. Then a pass over the file, with the
  trait order as the header's traits, yields one entry: it has the name of the entry and,
  for each trait of the order, the stored value where the entry has one and the text
  \<open>NA\<close> where it has none.
\<close>

theorem write_entry_roundtrip:
  assumes "trs \<noteq> []" and "distinct trs" and "header_traits self = trs"
    and "NL \<notin> set header" and "CR \<notin> set header"
    and "\<forall>f \<in> set (name entry # fields_to_write str_float entry trs).
           TAB \<notin> set f \<and> NL \<notin> set f \<and> CR \<notin> set f"
    and "last (fields_to_write str_float entry trs) \<noteq> []"
    and "\<not> isspace (last (last (fields_to_write str_float entry trs)))"
    and "\<forall>t \<in> set trs. \<forall>x. dict_get (traits entry) t = Some (Numeric x)
           \<longrightarrow> parse_float (str_float x) = Some x"
    and "\<forall>t \<in> set trs. \<forall>s. dict_get (traits entry) t = Some (Text s) \<longrightarrow> parse_float s = None"
    and "parse_float ''NA'' = None"
  shows "iter_table parse_float self
           (read_lines (fst (write_entry str_float entry (header @ [NL]) trs)))
           = ([Yield \<lparr>name = name entry,
                       traits = map (\<lambda>t. (t, case dict_get (traits entry) t of
                                                 Some v \<Rightarrow> v | None \<Rightarrow> Text ''NA'')) trs\<rparr>],
              None)"
proof -
  let ?fs = "fields_to_write str_float entry trs"
  let ?row = "join TAB (name entry # ?fs)"
  have len: "length ?fs = length trs" by (simp add: fields_to_write_map)
  with assms(1) have ne: "?fs \<noteq> []" by auto
  have tabs: "TAB \<notin> set (name entry)" "\<forall>f \<in> set ?fs. TAB \<notin> set f"
    using assms(6) by simp_all
  note splits = written_row_splits [OF ne tabs assms(7) assms(8)]
  have "NL \<noteq> TAB" "CR \<noteq> TAB" by (simp_all add: NL_def CR_def TAB_def)
  then have "NL \<notin> set ?row" "CR \<notin> set ?row"
    using assms(6) by (simp_all add: join_no_char)
  then have written: "read_lines (fst (write_entry str_float entry (header @ [NL]) trs))
                     = [header @ [NL], ?row @ [NL]]"
    using read_lines_two [OF assms(4,5), of ?row] by (simp add: write_entry_def)
  have reread: "to_number parse_float
                (case dict_get (traits entry) t of
                   Some v \<Rightarrow> str_value str_float v | None \<Rightarrow> ''NA'')
              = (case dict_get (traits entry) t of Some v \<Rightarrow> v | None \<Rightarrow> Text ''NA'')"
    if "t \<in> set trs" for t
  proof (cases "dict_get (traits entry) t")
    case None
    then show ?thesis using assms(11) by (simp add: to_number_def)
  next
    case (Some v)
    then show ?thesis using that assms(9,10) by (cases v) (auto simp: to_number_def)
  qed
  have "map (\<lambda>(t, v). (t, to_number parse_float v)) (zip trs ?fs)
          = map (\<lambda>t. (t, case dict_get (traits entry) t of
                            Some v \<Rightarrow> v | None \<Rightarrow> Text ''NA'')) trs"
    by (simp add: fields_to_write_map zip_map2 zip_same_conv_map reread cong: map_cong)
  moreover have "add_values parse_float trs 0 ?fs (new_entry (name entry))
          = Inr ((new_entry (name entry))\<lparr>traits := traits (new_entry (name entry))
                   @ map (\<lambda>(t, v). (t, to_number parse_float v)) (zip (drop 0 trs) ?fs)\<rparr>)"
    using assms(2) len by (intro add_values_distinct) (simp_all add: new_entry_def dict_keys_def)
  ultimately have "add_values parse_float trs 0 ?fs (new_entry (name entry))
          = Inr \<lparr>name = name entry,
                 traits = map (\<lambda>t. (t, case dict_get (traits entry) t of
                                           Some v \<Rightarrow> v | None \<Rightarrow> Text ''NA'')) trs\<rparr>"
    by (simp add: new_entry_def)
  then have "iter_line parse_float trs None (?row @ [NL])
          = ([Yield \<lparr>name = name entry,
                      traits = map (\<lambda>t. (t, case dict_get (traits entry) t of
                                                Some v \<Rightarrow> v | None \<Rightarrow> Text ''NA'')) trs\<rparr>],
             Inr (Some (name entry, join TAB ?fs)))"
    by (simp add: iter_line_def splits)
  then show ?thesis
    using assms(3) by (simp add: iter_table_def written)
qed

theorem write_entry_roundtrip_witness:
  "fst (write_entry decimal_str
          \<lparr>name = ''x'', traits = [(''K1'', Numeric 12), (''K3'', Text ''soil'')]\<rparr>
          (join TAB [''#OTU'', ''K1'', ''K2'', ''K3''] @ [NL]) [''K1'', ''K2'', ''K3''])
     = join TAB [''#OTU'', ''K1'', ''K2'', ''K3''] @ [NL]
       @ join TAB [''x'', ''12.0'', ''NA'', ''soil''] @ [NL] \<and>
   iter_table decimal_float
     (TraitTableManager_init ''traits.tab''
        (read_lines (join TAB [''#OTU'', ''K1'', ''K2'', ''K3''] @ [NL]
                       @ join TAB [''x'', ''12.0'', ''NA'', ''soil''] @ [NL])))
     (read_lines (fst (write_entry decimal_str
          \<lparr>name = ''x'', traits = [(''K1'', Numeric 12), (''K3'', Text ''soil'')]\<rparr>
          (join TAB [''#OTU'', ''K1'', ''K2'', ''K3''] @ [NL]) [''K1'', ''K2'', ''K3''])))
   = ([Yield \<lparr>name = ''x'',
               traits = [(''K1'', Numeric 12), (''K2'', Text ''NA''), (''K3'', Text ''soil'')]\<rparr>],
      None)"
proof -
  let ?header = "join TAB [''#OTU'', ''K1'', ''K2'', ''K3'']"
  let ?entry = "\<lparr>name = ''x'', traits = [(''K1'', Numeric (12::nat)), (''K3'', Text ''soil'')]\<rparr>"
  let ?trs = "[''K1'', ''K2'', ''K3'']"
  let ?content = "?header @ [NL] @ join TAB [''x'', ''12.0'', ''NA'', ''soil''] @ [NL]"
  let ?self = "TraitTableManager_init ''traits.tab'' (read_lines ?content)"
  have twelve: "decimal_str 12 = ''12.0''"
    unfolding decimal_str_def by code_simp
  have fs: "fields_to_write decimal_str ?entry ?trs = [''12.0'', ''NA'', ''soil'']"
    by (simp add: dict_get_def twelve)
  have content: "fst (write_entry decimal_str ?entry (?header @ [NL]) ?trs) = ?content"
    unfolding write_entry_def fs by simp
  have "read_lines ?content = [?header @ [NL], join TAB [''x'', ''12.0'', ''NA'', ''soil''] @ [NL]]"
    by (intro read_lines_two) (simp_all add: TAB_def NL_def CR_def)
  then have h3: "header_traits ?self = ?trs"
    by (simp add: str_defs init_defs)
  have h1: "?trs \<noteq> []" and h2: "distinct ?trs"
    and h4: "NL \<notin> set ?header" and h5: "CR \<notin> set ?header"
    by (simp_all add: TAB_def NL_def CR_def)
  have h6: "\<forall>f \<in> set (name ?entry # fields_to_write decimal_str ?entry ?trs).
              TAB \<notin> set f \<and> NL \<notin> set f \<and> CR \<notin> set f"
    unfolding fs by (simp add: TAB_def NL_def CR_def)
  have h7: "last (fields_to_write decimal_str ?entry ?trs) \<noteq> []"
    and h8: "\<not> isspace (last (last (fields_to_write decimal_str ?entry ?trs)))"
    unfolding fs by (simp_all add: isspace_def)
  have h9: "\<forall>t \<in> set ?trs. \<forall>x. dict_get (traits ?entry) t = Some (Numeric x)
              \<longrightarrow> decimal_float (decimal_str x) = Some x"
    by (simp add: dict_get_def twelve decimal_float_def strip_point_zero_def is_digit_def
        digit_val_def)
  have h10: "\<forall>t \<in> set ?trs. \<forall>s. dict_get (traits ?entry) t = Some (Text s)
              \<longrightarrow> decimal_float s = None"
    by (simp add: dict_get_def decimal_float_def strip_point_zero_def is_digit_def)
  have h11: "decimal_float ''NA'' = None"
    by (simp add: decimal_float_def strip_point_zero_def is_digit_def)
  from write_entry_roundtrip [OF h1 h2 h3 h4 h5 h6 h7 h8 h9 h10 h11] content
  show ?thesis by (simp add: dict_get_def)
qed

text \<open>
  C5 as stated fails on an entry whose last written value is the empty text (which
  \<open>add_trait\<close> stores for an empty raw value): the row ends with a tab, the reader strips
  it with the newline, and the entry read back has no value for the trait at all.
\<close>

theorem write_entry_empty_last_value_counterexample:
  "snd (add_trait decimal_float
          (snd (add_trait decimal_float (new_entry ''x'') ''color'' ''red'')) ''note'' [])
     = \<lparr>name = ''x'', traits = [(''color'', Text ''red''), (''note'', Text [])]\<rparr> \<and>
   fst (write_entry decimal_str
          \<lparr>name = ''x'', traits = [(''color'', Text ''red''), (''note'', Text [])]\<rparr>
          (join TAB [''#OTU'', ''color'', ''note''] @ [NL]) [''color'', ''note''])
     = join TAB [''#OTU'', ''color'', ''note''] @ [NL] @ join TAB [''x'', ''red'', []] @ [NL] \<and>
   iter_table decimal_float
     (TraitTableManager_init ''traits.tab''
        (read_lines (join TAB [''#OTU'', ''color'', ''note''] @ [NL]
                       @ join TAB [''x'', ''red'', []] @ [NL])))
     (read_lines (join TAB [''#OTU'', ''color'', ''note''] @ [NL]
                    @ join TAB [''x'', ''red'', []] @ [NL]))
     = ([Yield \<lparr>name = ''x'', traits = [(''color'', Text ''red'')]\<rparr>], None)"
  by (simp add: str_defs CR_def read_lines_def init_defs iter_defs write_entry_def dict_get_def
      to_number_def decimal_float_def strip_point_zero_def is_digit_def)

text \<open>
  A line break in the name splits the row in two lines: the first does not split at a tab,
  is printed, and ends the pass.
\<close>

lemma write_entry_line_break_in_name:
  "iter_table parse_float
     (TraitTableManager_init ''traits.tab''
        (read_lines (fst (write_entry str_float
           \<lparr>name = [CHR ''a'', NL, CHR ''b''], traits = [(''K1'', Text ''soil'')]\<rparr>
           (join TAB [''#OTU'', ''K1''] @ [NL]) [''K1'']))))
     (read_lines (fst (write_entry str_float
        \<lparr>name = [CHR ''a'', NL, CHR ''b''], traits = [(''K1'', Text ''soil'')]\<rparr>
        (join TAB [''#OTU'', ''K1''] @ [NL]) [''K1''])))
   = ([Print [CHR ''a'', NL]], Some UnboundLocalError)"
  by (simp add: str_defs CR_def read_lines_def init_defs iter_defs write_entry_def dict_get_def)

end
